theory Spec2Isabelle
  imports Complex_Main
begin

section \<open>Data model (models.py, config.py)\<close>

text \<open>
  Python's \<open>float\<close> is modelled by \<open>real\<close> (exact arithmetic; the section on
  Python floats below gives the pull power with IEEE rounding), \<open>int\<close> by \<open>int\<close>,
  \<open>str\<close> by \<open>string\<close>.
  A \<open>datetime\<close> is the number of microseconds since a fixed epoch, a \<open>timedelta\<close> a
  number of microseconds. Every call of \<open>datetime.now()\<close> is a parameter of the
  function that makes it. A \<open>Dict[str, float]\<close> is a map from strings to reals.
\<close>

type_synonym datetime = int
type_synonym timedelta = int

definition timedelta_seconds :: "int \<Rightarrow> timedelta" where
  "timedelta_seconds n = n * 1000000"

definition total_seconds :: "timedelta \<Rightarrow> real" where
  "total_seconds d = real_of_int d / 1000000"

datatype GameStatus = WAITING | ACTIVE | FINISHED | ABANDONED

datatype py_error = KeyError | ZeroDivisionError | OverflowError | MemoryError

record Player =
  id_player :: string
  username_player :: string
  channel_name :: string
  access_token :: string
  viewer_count :: int
  session_id :: "string option"

record PullData =
  timestamp :: datetime
  username :: string
  player_id :: string

record GameRoom =
  id_room :: string
  player1 :: Player
  player2 :: Player
  status :: GameStatus
  rope_position :: real
  start_time :: "datetime option"
  end_time :: "datetime option"
  winner_id :: "string option"
  pull_history :: "PullData list"
  player1_stats :: "string \<rightharpoonup> real"
  player2_stats :: "string \<rightharpoonup> real"

record QueuePlayer =
  player :: Player
  joined_at :: datetime
  session_id_queue :: string

text \<open>The game settings of \<open>config.Settings\<close> that the game engine reads.\<close>

record Settings =
  game_duration :: int
  pull_cooldown :: real
  base_pull_strength :: real
  win_threshold :: real

definition settings :: Settings where
  "settings = \<lparr>game_duration = 120, pull_cooldown = 1 / 2,
     base_pull_strength = 1, win_threshold = 100\<rparr>"

section \<open>The room registry and the room state machine (game\_manager.py)\<close>

text \<open>
  \<open>GameManager\<close> holds the two dictionaries. The keys of \<open>session_to_room\<close> are
  \<open>Player.session_id\<close> values, which are \<open>Optional[str]\<close>.
\<close>

record GameManager =
  rooms :: "string \<rightharpoonup> GameRoom"
  session_to_room :: "string option \<rightharpoonup> string"

definition GameManager_init :: GameManager where
  "GameManager_init = \<lparr>rooms = Map.empty, session_to_room = Map.empty\<rparr>"

text \<open>
  \<open>create_room\<close>: the room is built with \<open>id=""\<close>, so \<open>GameRoom.__init__\<close> replaces
  the id by \<open>str(uuid.uuid4())\<close>, here the parameter \<open>uuid\<close>. The other fields take
  the defaults of the class.
\<close>

definition GameRoom_init :: "string \<Rightarrow> string \<Rightarrow> Player \<Rightarrow> Player \<Rightarrow> GameStatus \<Rightarrow> GameRoom" where
  "GameRoom_init uuid i p1 p2 st =
     \<lparr>id_room = (if i = [] then uuid else i), player1 = p1, player2 = p2, status = st,
      rope_position = 0, start_time = None, end_time = None, winner_id = None,
      pull_history = [], player1_stats = Map.empty, player2_stats = Map.empty\<rparr>"

definition create_room :: "string \<Rightarrow> GameManager \<Rightarrow> Player \<Rightarrow> Player \<Rightarrow> GameRoom \<times> GameManager" where
  "create_room uuid m p1 p2 =
     (let room = GameRoom_init uuid [] p1 p2 WAITING;
          m1 = m\<lparr>rooms := (rooms m)(id_room room \<mapsto> room)\<rparr>;
          m2 = m1\<lparr>session_to_room := (session_to_room m1)(session_id p1 \<mapsto> id_room room)\<rparr>;
          m3 = m2\<lparr>session_to_room := (session_to_room m2)(session_id p2 \<mapsto> id_room room)\<rparr>
      in (room, m3))"

definition get_room :: "GameManager \<Rightarrow> string \<Rightarrow> GameRoom option" where
  "get_room m room_id = rooms m room_id"

text \<open>
  The room objects are mutated in place; the room found under \<open>room_id\<close> is written
  back under the same key.
\<close>

definition initial_stats :: "string \<rightharpoonup> real" where
  "initial_stats = [''total_pulls'' \<mapsto> 0, ''unique_pullers'' \<mapsto> 0,
     ''engagement_rate'' \<mapsto> 0, ''pull_power'' \<mapsto> 0]"

definition start_game :: "datetime \<Rightarrow> GameManager \<Rightarrow> string \<Rightarrow> GameManager" where
  "start_game now m room_id =
     (case get_room m room_id of
        None \<Rightarrow> m
      | Some room \<Rightarrow>
          if status room \<noteq> WAITING then m
          else m\<lparr>rooms := (rooms m)(room_id \<mapsto>
                 room\<lparr>status := ACTIVE, start_time := Some now, rope_position := 0,
                      player1_stats := initial_stats, player2_stats := initial_stats\<rparr>)\<rparr>)"

text \<open>
  \<open>register_pull\<close>: \<open>stats["total_pulls"] += 1\<close> raises \<open>KeyError\<close> when the key is
  missing, after the pull has been appended to the history. The result is the error
  raised, if any, and the manager as the call leaves it.
\<close>

definition register_pull ::
  "datetime \<Rightarrow> GameManager \<Rightarrow> string \<Rightarrow> string \<Rightarrow> string \<Rightarrow> py_error option \<times> GameManager" where
  "register_pull now m room_id pid uname =
     (case get_room m room_id of
        None \<Rightarrow> (None, m)
      | Some room \<Rightarrow>
          if status room \<noteq> ACTIVE then (None, m)
          else
            let pull = \<lparr>timestamp = now, username = uname, player_id = pid\<rparr>;
                room1 = room\<lparr>pull_history := pull_history room @ [pull]\<rparr>
            in if pid = id_player (player1 room1) then
                 (case player1_stats room1 ''total_pulls'' of
                    None \<Rightarrow> (Some KeyError, m\<lparr>rooms := (rooms m)(room_id \<mapsto> room1)\<rparr>)
                  | Some n \<Rightarrow> (None, m\<lparr>rooms := (rooms m)(room_id \<mapsto>
                      room1\<lparr>player1_stats := (player1_stats room1)(''total_pulls'' \<mapsto> n + 1)\<rparr>)\<rparr>))
               else
                 (case player2_stats room1 ''total_pulls'' of
                    None \<Rightarrow> (Some KeyError, m\<lparr>rooms := (rooms m)(room_id \<mapsto> room1)\<rparr>)
                  | Some n \<Rightarrow> (None, m\<lparr>rooms := (rooms m)(room_id \<mapsto>
                      room1\<lparr>player2_stats := (player2_stats room1)(''total_pulls'' \<mapsto> n + 1)\<rparr>)\<rparr>)))"

definition calculate_engagement_stats :: "Settings \<Rightarrow> datetime \<Rightarrow> GameRoom \<Rightarrow> GameRoom" where
  "calculate_engagement_stats s now room =
     (let window = timedelta_seconds 30;
          recent_pulls = filter (\<lambda>p. now - timestamp p < window) (pull_history room);
          p1_pulls = filter (\<lambda>p. player_id p = id_player (player1 room)) recent_pulls;
          p1_unique = card (set (map username p1_pulls));
          p1_engagement = real p1_unique / real_of_int (max (viewer_count (player1 room)) 1);
          p2_pulls = filter (\<lambda>p. player_id p = id_player (player2 room)) recent_pulls;
          p2_unique = card (set (map username p2_pulls));
          p2_engagement = real p2_unique / real_of_int (max (viewer_count (player2 room)) 1);
          s1 = (player1_stats room)(''unique_pullers'' \<mapsto> real p1_unique,
                  ''engagement_rate'' \<mapsto> p1_engagement);
          s2 = (player2_stats room)(''unique_pullers'' \<mapsto> real p2_unique,
                  ''engagement_rate'' \<mapsto> p2_engagement);
          base_power = base_pull_strength s
      in room\<lparr>player1_stats :=
                 s1(''pull_power'' \<mapsto> p1_engagement * base_power * log 10 (real (p1_unique + 1))),
              player2_stats :=
                 s2(''pull_power'' \<mapsto> p2_engagement * base_power * log 10 (real (p2_unique + 1)))\<rparr>)"

text \<open>
  \<open>update_rope_position\<close> returns the room and whether it scheduled
  \<open>end_game(room.id)\<close> with \<open>asyncio.create_task\<close>. The two stats it reads have just
  been written by \<open>calculate_engagement_stats\<close>.
\<close>

definition update_rope_position :: "Settings \<Rightarrow> datetime \<Rightarrow> GameRoom \<Rightarrow> GameRoom \<times> bool" where
  "update_rope_position s now room =
     (if status room \<noteq> ACTIVE then (room, False)
      else
        let room1 = calculate_engagement_stats s now room;
            p1_power = the (player1_stats room1 ''pull_power'');
            p2_power = the (player2_stats room1 ''pull_power'');
            net_force = p1_power - p2_power;
            room2 = room1\<lparr>rope_position := rope_position room1 + net_force * (1 / 2)\<rparr>;
            room3 = room2\<lparr>rope_position :=
                      max (- win_threshold s) (min (win_threshold s) (rope_position room2))\<rparr>
        in (room3, \<bar>rope_position room3\<bar> \<ge> win_threshold s))"

text \<open>
  \<open>end_game\<close> up to its suspension at \<open>await asyncio.sleep(30)\<close>; when it resumes it
  calls \<open>cleanup_room room_id\<close>.
\<close>

definition end_game :: "Settings \<Rightarrow> datetime \<Rightarrow> GameManager \<Rightarrow> string \<Rightarrow> GameManager" where
  "end_game s now m room_id =
     (case get_room m room_id of
        None \<Rightarrow> m
      | Some room \<Rightarrow>
          let room1 = room\<lparr>status := FINISHED, end_time := Some now\<rparr>;
              room2 = (if rope_position room1 \<le> - win_threshold s
                         then room1\<lparr>winner_id := Some (id_player (player2 room1))\<rparr>
                       else if rope_position room1 \<ge> win_threshold s
                         then room1\<lparr>winner_id := Some (id_player (player1 room1))\<rparr>
                       else room1)
          in m\<lparr>rooms := (rooms m)(room_id \<mapsto> room2)\<rparr>)"

definition cleanup_room :: "GameManager \<Rightarrow> string \<Rightarrow> GameManager" where
  "cleanup_room m room_id =
     (let m1 = (case get_room m room_id of
                  None \<Rightarrow> m
                | Some room \<Rightarrow>
                    let ma = (if session_id (player1 room) \<in> dom (session_to_room m)
                              then m\<lparr>session_to_room :=
                                       (session_to_room m)(session_id (player1 room) := None)\<rparr>
                              else m);
                        mb = (if session_id (player2 room) \<in> dom (session_to_room ma)
                              then ma\<lparr>session_to_room :=
                                       (session_to_room ma)(session_id (player2 room) := None)\<rparr>
                              else ma)
                    in mb)
      in if room_id \<in> dom (rooms m1) then m1\<lparr>rooms := (rooms m1)(room_id := None)\<rparr> else m1)"

text \<open>
  \<open>handle_player_disconnect\<close> up to the suspension inside the \<open>end_game\<close> it awaits:
  \<open>mark_abandoned\<close> is the block under \<open>if room.status == GameStatus.ACTIVE\<close>, and
  nothing runs between it and the call of \<open>end_game\<close>.
\<close>

definition mark_abandoned :: "GameRoom \<Rightarrow> string \<Rightarrow> GameRoom" where
  "mark_abandoned room sid =
     (if status room = ACTIVE then
        (let room1 = room\<lparr>status := ABANDONED\<rparr>
         in if session_id (player1 room1) = Some sid
            then room1\<lparr>winner_id := Some (id_player (player2 room1))\<rparr>
            else room1\<lparr>winner_id := Some (id_player (player1 room1))\<rparr>)
      else room)"

definition handle_player_disconnect ::
  "Settings \<Rightarrow> datetime \<Rightarrow> GameManager \<Rightarrow> string \<Rightarrow> string \<Rightarrow> GameManager" where
  "handle_player_disconnect s now m room_id sid =
     (case get_room m room_id of
        None \<Rightarrow> m
      | Some room \<Rightarrow>
          end_game s now (m\<lparr>rooms := (rooms m)(room_id \<mapsto> mark_abandoned room sid)\<rparr>) room_id)"

text \<open>
  The body of the \<open>for room in active_rooms\<close> loop of \<open>game_loop\<close>, for the room
  stored under \<open>key\<close> (one of the rooms that were ACTIVE when the list was built), up to
  the broadcast or the \<open>continue\<close>: the rope update, then the time limit. The
  three clock readings are those of \<open>calculate_engagement_stats\<close>, of the time-limit
  check and of \<open>end_game\<close>. The result also says whether \<open>update_rope_position\<close>
  scheduled an \<open>end_game\<close> task.
\<close>

definition game_loop_room ::
  "Settings \<Rightarrow> datetime \<Rightarrow> datetime \<Rightarrow> datetime \<Rightarrow> GameManager \<Rightarrow> string \<Rightarrow> GameManager \<times> bool" where
  "game_loop_room s now_stats now_check now_end m key =
     (case rooms m key of
        None \<Rightarrow> (m, False)
      | Some room0 \<Rightarrow>
          let (room, scheduled) = update_rope_position s now_stats room0;
              m1 = m\<lparr>rooms := (rooms m)(key \<mapsto> room)\<rparr>
          in (case start_time room of
                None \<Rightarrow> (m1, scheduled)
              | Some t0 \<Rightarrow>
                  let elapsed = total_seconds (now_check - t0)
                  in if elapsed \<ge> real_of_int (game_duration s)
                     then (end_game s now_end m1 (id_room room), scheduled)
                     else (m1, scheduled)))"

section \<open>The matchmaking queue (matchmaking.py)\<close>

text \<open>
  The queue is the list \<open>self.queue\<close>; each function runs under \<open>queue_lock\<close>, so it
  is one step on the list.
\<close>

definition add_player :: "datetime \<Rightarrow> QueuePlayer list \<Rightarrow> Player \<Rightarrow> QueuePlayer list" where
  "add_player now queue p =
     (if \<exists>q_player \<in> set queue. Some (session_id_queue q_player) = session_id p then queue
      else
        (case session_id p of
           None \<Rightarrow> queue
         | Some sid \<Rightarrow>
             if sid = [] then queue
             else queue @ [\<lparr>player = p, joined_at = now, session_id_queue = sid\<rparr>]))"

definition remove_player :: "QueuePlayer list \<Rightarrow> string \<Rightarrow> QueuePlayer list" where
  "remove_player queue sid = filter (\<lambda>p. session_id_queue p \<noteq> sid) queue"

text \<open>\<open>list.pop(0)\<close>: the first element and the rest; \<open>IndexError\<close> on an empty list.\<close>

fun pop0 :: "'a list \<Rightarrow> ('a \<times> 'a list) option" where
  "pop0 [] = None"
| "pop0 (x # xs) = Some (x, xs)"

text \<open>
  \<open>find_match\<close> returns the pair of players or \<open>None\<close>, and the queue it leaves. The
  two pops come after the length check, so neither can fail; the model gives \<open>None\<close>
  on those unreachable branches.
\<close>

definition find_match :: "QueuePlayer list \<Rightarrow> (Player \<times> Player) option \<times> QueuePlayer list" where
  "find_match queue =
     (if length queue < 2 then (None, queue)
      else
        (case pop0 queue of
           None \<Rightarrow> (None, queue)
         | Some (entry1, queue1) \<Rightarrow>
             (case pop0 queue1 of
                None \<Rightarrow> (None, queue1)
              | Some (entry2, queue2) \<Rightarrow> (Some (player entry1, player entry2), queue2))))"

section \<open>Sequences of operations\<close>

text \<open>
  The operations run on one event loop, so each runs without interruption up to its
  first suspension. An event is one such run: a call of \<open>create_room\<close>,
  \<open>start_game\<close>, \<open>register_pull\<close>, \<open>update_rope_position\<close> on the room stored
  under a key (as \<open>game_loop\<close> calls it on the values of \<open>rooms\<close>), \<open>end_game\<close> up
  to its sleep, \<open>cleanup_room\<close> (which \<open>end_game\<close> calls when it resumes), or
  \<open>handle_player_disconnect\<close>. \<open>fresh_uuid\<close> says that the id \<open>uuid.uuid4()\<close>
  gives a new room is not the id of a room of the registry.
\<close>

datatype event =
    CreateRoom string Player Player
  | StartGame datetime string
  | RegisterPull datetime string string string
  | UpdateRopePosition datetime string
  | EndGame datetime string
  | CleanupRoom string
  | PlayerDisconnect datetime string string

fun step :: "Settings \<Rightarrow> GameManager \<Rightarrow> event \<Rightarrow> GameManager" where
  "step s m (CreateRoom uuid p1 p2) = snd (create_room uuid m p1 p2)"
| "step s m (StartGame now room_id) = start_game now m room_id"
| "step s m (RegisterPull now room_id pid uname) = snd (register_pull now m room_id pid uname)"
| "step s m (UpdateRopePosition now key) =
     (case rooms m key of
        None \<Rightarrow> m
      | Some room \<Rightarrow> m\<lparr>rooms := (rooms m)(key \<mapsto> fst (update_rope_position s now room))\<rparr>)"
| "step s m (EndGame now room_id) = end_game s now m room_id"
| "step s m (CleanupRoom room_id) = cleanup_room m room_id"
| "step s m (PlayerDisconnect now room_id sid) = handle_player_disconnect s now m room_id sid"

fun fresh_uuid :: "GameManager \<Rightarrow> event \<Rightarrow> bool" where
  "fresh_uuid m (CreateRoom uuid p1 p2) = (rooms m uuid = None)"
| "fresh_uuid m _ = True"

fun run :: "Settings \<Rightarrow> GameManager \<Rightarrow> event list \<Rightarrow> GameManager" where
  "run s m [] = m"
| "run s m (e # es) = run s (step s m e) es"

fun admissible :: "Settings \<Rightarrow> GameManager \<Rightarrow> event list \<Rightarrow> bool" where
  "admissible s m [] = True"
| "admissible s m (e # es) = (fresh_uuid m e \<and> admissible s (step s m e) es)"

section \<open>Python floats: IEEE 754 binary64 arithmetic\<close>

text \<open>
  The definitions of the game manager above compute on reals, that is, in exact
  arithmetic. A Python \<open>float\<close> is an IEEE 754 binary64 number, and the pull power of
  lines 92 and 107 (97 and 108 for player 2) is computed by one int division and two
  float multiplications, each rounded to the nearest double, ties to even. The
  definitions of this section give that computation with its rounding, underflow and
  overflow.

  A float is a finite double (its real value), an infinity or NaN; the sign of a zero is
  not kept, since \<open>0.0 == -0.0\<close>.
\<close>

datatype pyfloat = Finite real | PInf | NInf | NaN

text \<open>
  Rounding to the nearest double. \<open>binade x\<close> is the exponent \<open>e\<close> with
  \<open>2^e \<le> |x| < 2^(e+1)\<close>, and -1022 for the subnormal range; the doubles of that
  binade are the multiples of \<open>ulp x = 2^(e - 52)\<close>. A result of \<open>2^1024\<close> or more
  is an overflow.
\<close>

definition binade :: "real \<Rightarrow> int" where
  "binade x = (if \<bar>x\<bar> < 2 powr (- 1022) then - 1022 else \<lfloor>log 2 \<bar>x\<bar>\<rfloor>)"

definition ulp :: "real \<Rightarrow> real" where
  "ulp x = 2 powr (real_of_int (binade x) - 52)"

definition round_half_even :: "real \<Rightarrow> int" where
  "round_half_even q =
     (if q - real_of_int \<lfloor>q\<rfloor> < 1 / 2 then \<lfloor>q\<rfloor>
      else if 1 / 2 < q - real_of_int \<lfloor>q\<rfloor> then \<lfloor>q\<rfloor> + 1
      else if even \<lfloor>q\<rfloor> then \<lfloor>q\<rfloor> else \<lfloor>q\<rfloor> + 1)"

definition round_double_value :: "real \<Rightarrow> real" where
  "round_double_value x = real_of_int (round_half_even (x / ulp x)) * ulp x"

definition round_double :: "real \<Rightarrow> pyfloat" where
  "round_double x =
     (let r = round_double_value x
      in if 2 powr 1024 \<le> r then PInf
         else if r \<le> - (2 powr 1024) then NInf
         else Finite r)"









section \<open>Invariants and the specification's formulas\<close>

text \<open>
  The registry is well formed when every room is stored under its own id and every
  session entry points to a room of the registry that has a player with that session.
\<close>

definition registry_inv :: "GameManager \<Rightarrow> bool" where
  "registry_inv m =
     ((\<forall>key room. rooms m key = Some room \<longrightarrow> id_room room = key) \<and>
      (\<forall>sid room_id. session_to_room m sid = Some room_id \<longrightarrow>
         (\<exists>room. rooms m room_id = Some room \<and>
            (sid = session_id (player1 room) \<or> sid = session_id (player2 room)))))"

definition same_players :: "GameRoom \<Rightarrow> GameRoom \<Rightarrow> bool" where
  "same_players r r' = (id_room r' = id_room r \<and> player1 r' = player1 r \<and> player2 r' = player2 r)"

text \<open>The rope position lies between minus and plus the win threshold.\<close>

definition in_bounds :: "Settings \<Rightarrow> GameRoom \<Rightarrow> bool" where
  "in_bounds s room =
     (- win_threshold s \<le> rope_position room \<and> rope_position room \<le> win_threshold s)"

text \<open>Both stats dictionaries of the room have the key \<open>total_pulls\<close>.\<close>

definition has_total_pulls :: "GameRoom \<Rightarrow> bool" where
  "has_total_pulls room =
     (player1_stats room ''total_pulls'' \<noteq> None \<and> player2_stats room ''total_pulls'' \<noteq> None)"

definition stats_inv :: "GameManager \<Rightarrow> bool" where
  "stats_inv m =
     (\<forall>key room. rooms m key = Some room \<longrightarrow> status room = ACTIVE \<longrightarrow> has_total_pulls room)"

text \<open>
  The number of unique pullers of a side as the specification words it: the number of
  distinct usernames among the events of the history that are less than 30 seconds old
  at the clock reading \<open>now\<close> and whose \<open>player_id\<close> is the side's id.
\<close>

definition unique_pullers_spec :: "datetime \<Rightarrow> string \<Rightarrow> PullData list \<Rightarrow> nat" where
  "unique_pullers_spec now pid history =
     card (username ` {p \<in> set history. now - timestamp p < 30 * 1000000 \<and> player_id p = pid})"

text \<open>The pull-power formula of the specification.\<close>

definition pull_power_spec :: "real \<Rightarrow> int \<Rightarrow> nat \<Rightarrow> real" where
  "pull_power_spec base viewers unique =
     (real unique / real_of_int (max viewers 1)) * base * log 10 (real unique + 1)"

text \<open>The order of the states along WAITING, ACTIVE, then FINISHED or ABANDONED.\<close>

fun status_rank :: "GameStatus \<Rightarrow> nat" where
  "status_rank WAITING = 0"
| "status_rank ACTIVE = 1"
| "status_rank FINISHED = 2"
| "status_rank ABANDONED = 2"



section \<open>Concrete inputs\<close>

definition playerA :: Player where
  "playerA = \<lparr>id_player = ''pa'', username_player = ''alice'', channel_name = ''alice_tv'',
     access_token = ''ta'', viewer_count = 10, session_id = Some ''sa''\<rparr>"

definition playerB :: Player where
  "playerB = \<lparr>id_player = ''pb'', username_player = ''bob'', channel_name = ''bob_tv'',
     access_token = ''tb'', viewer_count = 20, session_id = Some ''sb''\<rparr>"

definition playerC :: Player where
  "playerC = \<lparr>id_player = ''pc'', username_player = ''carol'', channel_name = ''carol_tv'',
     access_token = ''tc'', viewer_count = 5, session_id = Some ''sc''\<rparr>"

text \<open>
  Event lists: a room of players A and B is created and started; the room has ended and
  player A, with the same session, is paired with player C in a second room before the
  first is cleaned up; one pull for player A and one tick.
\<close>

definition events_one_room :: "event list" where
  "events_one_room = [CreateRoom ''r1'' playerA playerB, StartGame 0 ''r1'']"

definition events_requeued :: "event list" where
  "events_requeued = [CreateRoom ''r1'' playerA playerB, StartGame 0 ''r1'',
     EndGame 5000000 ''r1'', CreateRoom ''r2'' playerA playerC]"

definition events_pull_tick :: "event list" where
  "events_pull_tick = [RegisterPull 1000000 ''r1'' ''pa'' ''viewer1'',
     UpdateRopePosition 2000000 ''r1'']"

text \<open>
  An ACTIVE room of players A (10 viewers) and B: for player A one pull at second 1 and
  four pulls by three usernames at seconds 40 to 43, for player B one pull at second 44.
\<close>

definition room_three_pullers :: GameRoom where
  "room_three_pullers =
     \<lparr>id_room = ''r1'', player1 = playerA, player2 = playerB, status = ACTIVE,
      rope_position = 0, start_time = Some 0, end_time = None, winner_id = None,
      pull_history =
        [\<lparr>timestamp = 1000000, username = ''old'', player_id = ''pa''\<rparr>,
         \<lparr>timestamp = 40000000, username = ''u1'', player_id = ''pa''\<rparr>,
         \<lparr>timestamp = 41000000, username = ''u2'', player_id = ''pa''\<rparr>,
         \<lparr>timestamp = 42000000, username = ''u1'', player_id = ''pa''\<rparr>,
         \<lparr>timestamp = 43000000, username = ''u3'', player_id = ''pa''\<rparr>,
         \<lparr>timestamp = 44000000, username = ''v1'', player_id = ''pb''\<rparr>],
      player1_stats = initial_stats, player2_stats = initial_stats\<rparr>"

text \<open>The same room with the two players exchanged.\<close>

definition room_three_pullers_swapped :: GameRoom where
  "room_three_pullers_swapped = room_three_pullers\<lparr>player1 := playerB, player2 := playerA\<rparr>"


text \<open>
  \<open>state_started\<close>: room \<open>r1\<close> has been created and started. \<open>state_pulled\<close>:
  then a viewer of player A has pulled once at second 1 and the game loop has ticked at
  second 2.
\<close>

definition state_started :: GameManager where
  "state_started = run settings GameManager_init events_one_room"

definition state_pulled :: GameManager where
  "state_pulled = run settings state_started events_pull_tick"

text \<open>
  The state inside \<open>handle_player_disconnect\<close> for session \<open>sa\<close> on
  \<open>state_started\<close>, between the block that marks the room and the call of
  \<open>end_game\<close>.
\<close>

definition state_abandoned :: GameManager where
  "state_abandoned =
     state_started\<lparr>rooms := (rooms state_started)(''r1'' \<mapsto>
        mark_abandoned (the (rooms state_started ''r1'')) ''sa'')\<rparr>"

text \<open>An ACTIVE room whose rope has reached the win threshold on player A's side.\<close>

definition room_at_threshold :: GameRoom where
  "room_at_threshold =
     \<lparr>id_room = ''r1'', player1 = playerA, player2 = playerB, status = ACTIVE,
      rope_position = 100, start_time = Some 0, end_time = None, winner_id = None,
      pull_history = [], player1_stats = initial_stats, player2_stats = initial_stats\<rparr>"

definition state_at_threshold :: GameManager where
  "state_at_threshold =
     \<lparr>rooms = [''r1'' \<mapsto> room_at_threshold],
      session_to_room = [Some ''sa'' \<mapsto> ''r1'', Some ''sb'' \<mapsto> ''r1'']\<rparr>"

section \<open>Matchmaking\<close>

lemma find_match_two: "find_match (e1 # e2 # rest) = (Some (player e1, player e2), rest)"
  by (simp add: find_match_def)

lemma find_match_short: "length queue < 2 \<Longrightarrow> find_match queue = (None, queue)"
  by (simp add: find_match_def)

text \<open>
  C7. Matchmaking is strict FIFO. A queue with at least two entries loses its first two
  entries, whose players are returned in that order, and keeps the rest in order; a
  queue with fewer than two entries gives no match and is unchanged. \<open>add_player\<close>
  appends, so the head of the queue is the earliest arrival: after A, B and C (with
  distinct, non-empty session handles) have joined an empty queue, the first match is
  (A, B), C alone remains, and the next attempt finds nothing.
\<close>

theorem find_match_fifo:
  "(\<forall>e1 e2 rest. queue = e1 # e2 # rest \<longrightarrow>
       find_match queue = (Some (player e1, player e2), rest))
   \<and> (length queue < 2 \<longrightarrow> find_match queue = (None, queue))
   \<and> (session_id A = Some a \<and> session_id B = Some b \<and> session_id C = Some c
        \<and> a \<noteq> [] \<and> b \<noteq> [] \<and> c \<noteq> [] \<and> distinct [a, b, c] \<longrightarrow>
        (let q3 = add_player t3 (add_player t2 (add_player t1 [] A) B) C;
             (match1, q1) = find_match q3
         in match1 = Some (A, B) \<and> map player q1 = [C] \<and> find_match q1 = (None, q1)))"
proof (intro conjI allI impI)
  fix e1 e2 rest assume "queue = e1 # e2 # rest"
  then show "find_match queue = (Some (player e1, player e2), rest)"
    by (simp add: find_match_two)
next
  assume "length queue < 2"
  then show "find_match queue = (None, queue)" by (rule find_match_short)
next
  assume h: "session_id A = Some a \<and> session_id B = Some b \<and> session_id C = Some c
        \<and> a \<noteq> [] \<and> b \<noteq> [] \<and> c \<noteq> [] \<and> distinct [a, b, c]"
  have q1: "add_player t1 [] A = [\<lparr>player = A, joined_at = t1, session_id_queue = a\<rparr>]"
    using h by (simp add: add_player_def)
  have q2: "add_player t2 (add_player t1 [] A) B =
      [\<lparr>player = A, joined_at = t1, session_id_queue = a\<rparr>,
       \<lparr>player = B, joined_at = t2, session_id_queue = b\<rparr>]"
    using h by (auto simp add: q1 add_player_def)
  have q3: "add_player t3 (add_player t2 (add_player t1 [] A) B) C =
      [\<lparr>player = A, joined_at = t1, session_id_queue = a\<rparr>,
       \<lparr>player = B, joined_at = t2, session_id_queue = b\<rparr>,
       \<lparr>player = C, joined_at = t3, session_id_queue = c\<rparr>]"
    using h by (auto simp add: q2 add_player_def)
  show "let q3 = add_player t3 (add_player t2 (add_player t1 [] A) B) C;
             (match1, q1) = find_match q3
         in match1 = Some (A, B) \<and> map player q1 = [C] \<and> find_match q1 = (None, q1)"
    by (simp add: q3 find_match_two find_match_short)
qed

theorem find_match_fifo_witness:
  "session_id playerA = Some ''sa'' \<and> session_id playerB = Some ''sb''
   \<and> session_id playerC = Some ''sc'' \<and> distinct [''sa'', ''sb'', ''sc'']
   \<and> length (add_player 3 (add_player 2 (add_player 1 [] playerA) playerB) playerC) = 3
   \<and> find_match (add_player 3 (add_player 2 (add_player 1 [] playerA) playerB) playerC)
     = (Some (playerA, playerB), [\<lparr>player = playerC, joined_at = 3, session_id_queue = ''sc''\<rparr>])
   \<and> length [\<lparr>player = playerC, joined_at = 3, session_id_queue = ''sc''\<rparr>] < 2
   \<and> find_match [\<lparr>player = playerC, joined_at = 3, session_id_queue = ''sc''\<rparr>]
     = (None, [\<lparr>player = playerC, joined_at = 3, session_id_queue = ''sc''\<rparr>])"
  using find_match_fifo [of "add_player 3 (add_player 2 (add_player 1 [] playerA) playerB) playerC"
      playerA "''sa''" playerB "''sb''" playerC "''sc''" 3 2 1]
    find_match_fifo [of "[\<lparr>player = playerC, joined_at = 3, session_id_queue = ''sc''\<rparr>]"
      playerA "''sa''" playerB "''sb''" playerC "''sc''" 3 2 1]
  by (simp add: playerA_def playerB_def playerC_def add_player_def find_match_def)

section \<open>The registry\<close>

lemmas eval_defs = GameManager_init_def create_room_def GameRoom_init_def start_game_def
  get_room_def end_game_def settings_def playerA_def playerB_def playerC_def initial_stats_def

lemma registry_inv_init: "registry_inv GameManager_init"
  by (simp add: registry_inv_def GameManager_init_def)

lemma registry_invI:
  assumes "\<And>key room. rooms m key = Some room \<Longrightarrow> id_room room = key"
    and "\<And>sid room_id. session_to_room m sid = Some room_id \<Longrightarrow>
           \<exists>room. rooms m room_id = Some room \<and>
             (sid = session_id (player1 room) \<or> sid = session_id (player2 room))"
  shows "registry_inv m"
  using assms unfolding registry_inv_def by blast

lemma registry_inv_id: "registry_inv m \<Longrightarrow> rooms m key = Some room \<Longrightarrow> id_room room = key"
  unfolding registry_inv_def by blast

lemma registry_inv_session:
  "registry_inv m \<Longrightarrow> session_to_room m sid = Some room_id \<Longrightarrow>
   \<exists>room. rooms m room_id = Some room \<and>
     (sid = session_id (player1 room) \<or> sid = session_id (player2 room))"
  unfolding registry_inv_def by blast

text \<open>An operation that only rewrites rooms in place, keeping ids and players.\<close>

lemma registry_inv_update:
  assumes inv: "registry_inv m" and k: "rooms m k = Some r" and sp: "same_players r r'"
  shows "registry_inv (m\<lparr>rooms := (rooms m)(k \<mapsto> r')\<rparr>)"
proof (rule registry_invI)
  fix key room
  assume "rooms (m\<lparr>rooms := (rooms m)(k \<mapsto> r')\<rparr>) key = Some room"
  then show "id_room room = key"
    using registry_inv_id [OF inv] k sp by (auto simp: same_players_def split: if_splits)
next
  fix sid room_id
  assume "session_to_room (m\<lparr>rooms := (rooms m)(k \<mapsto> r')\<rparr>) sid = Some room_id"
  then have "session_to_room m sid = Some room_id" by simp
  from registry_inv_session [OF inv this] obtain room where
    room: "rooms m room_id = Some room"
      "sid = session_id (player1 room) \<or> sid = session_id (player2 room)" by blast
  show "\<exists>room. rooms (m\<lparr>rooms := (rooms m)(k \<mapsto> r')\<rparr>) room_id = Some room \<and>
          (sid = session_id (player1 room) \<or> sid = session_id (player2 room))"
  proof (cases "room_id = k")
    case True
    then have "room = r" using room k by simp
    then show ?thesis using True room sp by (simp add: same_players_def)
  next
    case False
    then show ?thesis using room by simp
  qed
qed

lemma create_room_rooms:
  "rooms (snd (create_room uuid m p1 p2)) = (rooms m)(uuid \<mapsto> GameRoom_init uuid [] p1 p2 WAITING)"
  by (simp add: create_room_def GameRoom_init_def Let_def)

lemma create_room_sessions:
  "session_to_room (snd (create_room uuid m p1 p2)) =
     (session_to_room m)(session_id p1 \<mapsto> uuid, session_id p2 \<mapsto> uuid)"
  by (simp add: create_room_def GameRoom_init_def Let_def)

lemma registry_inv_create_room:
  assumes inv: "registry_inv m" and fresh: "rooms m uuid = None"
  shows "registry_inv (snd (create_room uuid m p1 p2))"
proof (rule registry_invI)
  fix key room
  assume "rooms (snd (create_room uuid m p1 p2)) key = Some room"
  then show "id_room room = key"
    using registry_inv_id [OF inv]
    by (auto simp: create_room_rooms GameRoom_init_def split: if_splits)
next
  fix sid room_id
  assume a: "session_to_room (snd (create_room uuid m p1 p2)) sid = Some room_id"
  show "\<exists>room. rooms (snd (create_room uuid m p1 p2)) room_id = Some room \<and>
          (sid = session_id (player1 room) \<or> sid = session_id (player2 room))"
  proof (cases "sid = session_id p1 \<or> sid = session_id p2")
    case True
    then have "room_id = uuid" using a by (auto simp: create_room_sessions split: if_splits)
    then show ?thesis using True by (simp add: create_room_rooms GameRoom_init_def)
  next
    case False
    then have "session_to_room m sid = Some room_id"
      using a by (simp add: create_room_sessions)
    from registry_inv_session [OF inv this] obtain room where
      room: "rooms m room_id = Some room"
        "sid = session_id (player1 room) \<or> sid = session_id (player2 room)" by blast
    then have "room_id \<noteq> uuid" using fresh by auto
    then show ?thesis using room by (simp add: create_room_rooms)
  qed
qed

lemma registry_inv_start_game: "registry_inv m \<Longrightarrow> registry_inv (start_game now m rid)"
  unfolding start_game_def get_room_def
  by (simp split: option.splits add: registry_inv_update same_players_def)

lemma registry_inv_register_pull:
  "registry_inv m \<Longrightarrow> registry_inv (snd (register_pull now m rid pid u))"
  unfolding register_pull_def get_room_def Let_def
  by (simp split: option.splits add: registry_inv_update same_players_def)

lemma calculate_engagement_stats_frame:
  "id_room (calculate_engagement_stats s now r) = id_room r"
  "player1 (calculate_engagement_stats s now r) = player1 r"
  "player2 (calculate_engagement_stats s now r) = player2 r"
  "status (calculate_engagement_stats s now r) = status r"
  "rope_position (calculate_engagement_stats s now r) = rope_position r"
  "start_time (calculate_engagement_stats s now r) = start_time r"
  "end_time (calculate_engagement_stats s now r) = end_time r"
  "winner_id (calculate_engagement_stats s now r) = winner_id r"
  "pull_history (calculate_engagement_stats s now r) = pull_history r"
  by (simp_all add: calculate_engagement_stats_def Let_def)

lemma update_rope_position_frame:
  "id_room (fst (update_rope_position s now r)) = id_room r"
  "player1 (fst (update_rope_position s now r)) = player1 r"
  "player2 (fst (update_rope_position s now r)) = player2 r"
  "status (fst (update_rope_position s now r)) = status r"
  "start_time (fst (update_rope_position s now r)) = start_time r"
  "end_time (fst (update_rope_position s now r)) = end_time r"
  "winner_id (fst (update_rope_position s now r)) = winner_id r"
  "pull_history (fst (update_rope_position s now r)) = pull_history r"
  by (simp_all add: update_rope_position_def calculate_engagement_stats_frame Let_def)

lemma same_players_update_rope: "same_players r (fst (update_rope_position s now r))"
  by (simp add: update_rope_position_frame same_players_def)

lemma registry_inv_end_game: "registry_inv m \<Longrightarrow> registry_inv (end_game s now m rid)"
  unfolding end_game_def get_room_def Let_def
  by (simp split: option.splits add: registry_inv_update same_players_def)

lemma same_players_mark_abandoned: "same_players r (mark_abandoned r sid)"
  by (simp add: mark_abandoned_def same_players_def Let_def)

lemma registry_inv_handle_player_disconnect:
  "registry_inv m \<Longrightarrow> registry_inv (handle_player_disconnect s now m rid sid)"
  unfolding handle_player_disconnect_def get_room_def
  by (simp split: option.splits
        add: registry_inv_end_game registry_inv_update same_players_mark_abandoned)

lemma cleanup_room_rooms: "rooms (cleanup_room m rid) = (rooms m)(rid := None)"
  by (auto simp: cleanup_room_def get_room_def Let_def split: option.splits)

lemma cleanup_room_sessions_Some:
  "rooms m rid = Some room \<Longrightarrow>
   session_to_room (cleanup_room m rid) =
     (session_to_room m)(session_id (player1 room) := None, session_id (player2 room) := None)"
  by (auto simp: cleanup_room_def get_room_def Let_def fun_eq_iff domIff split: option.splits)

lemma cleanup_room_sessions_None:
  "rooms m rid = None \<Longrightarrow> session_to_room (cleanup_room m rid) = session_to_room m"
  by (auto simp: cleanup_room_def get_room_def Let_def split: option.splits)

lemma cleanup_room_absent: "rooms m rid = None \<Longrightarrow> cleanup_room m rid = m"
  by (auto simp: cleanup_room_def get_room_def Let_def domIff split: option.splits)

lemma registry_inv_cleanup_room:
  assumes inv: "registry_inv m" shows "registry_inv (cleanup_room m rid)"
proof (cases "rooms m rid")
  case None
  then show ?thesis using assms by (simp add: cleanup_room_absent)
next
  case (Some r)
  show ?thesis
  proof (rule registry_invI)
    fix key room
    assume "rooms (cleanup_room m rid) key = Some room"
    then show "id_room room = key"
      using registry_inv_id [OF inv] by (auto simp: cleanup_room_rooms split: if_splits)
  next
    fix sid room_id
    assume a: "session_to_room (cleanup_room m rid) sid = Some room_id"
    then have sid: "sid \<noteq> session_id (player1 r)" "sid \<noteq> session_id (player2 r)"
      and old: "session_to_room m sid = Some room_id"
      by (auto simp: cleanup_room_sessions_Some [OF Some] split: if_splits)
    from registry_inv_session [OF inv old] obtain room where
      room: "rooms m room_id = Some room"
        "sid = session_id (player1 room) \<or> sid = session_id (player2 room)" by blast
    then have "room_id \<noteq> rid" using Some sid by auto
    then show "\<exists>room. rooms (cleanup_room m rid) room_id = Some room \<and>
          (sid = session_id (player1 room) \<or> sid = session_id (player2 room))"
      using room by (simp add: cleanup_room_rooms)
  qed
qed

lemma registry_inv_step: "registry_inv m \<Longrightarrow> fresh_uuid m e \<Longrightarrow> registry_inv (step s m e)"
  by (cases e)
     (simp_all add: registry_inv_create_room registry_inv_start_game registry_inv_register_pull
        registry_inv_end_game registry_inv_cleanup_room registry_inv_handle_player_disconnect
        same_players_update_rope registry_inv_update split: option.splits)

lemma registry_inv_run:
  "registry_inv m \<Longrightarrow> admissible s m es \<Longrightarrow> registry_inv (run s m es)"
  by (induction es arbitrary: m) (simp_all add: registry_inv_step)

text \<open>
  C8. In every registry state that the operations can produce from the empty registry,
  after \<open>cleanup_room room_id\<close> the room id is absent from \<open>rooms\<close> and no entry of
  \<open>session_to_room\<close> maps to it; a second \<open>cleanup_room room_id\<close> changes neither
  index. \<open>cleanup_room\<close> has no failing branch: both deletions are guarded by a
  membership test.
\<close>

theorem cleanup_room_clears:
  "admissible s GameManager_init es \<longrightarrow>
   (let m = run s GameManager_init es; m' = cleanup_room m room_id
    in rooms m' room_id = None
       \<and> (\<forall>sid. session_to_room m' sid \<noteq> Some room_id)
       \<and> cleanup_room m' room_id = m')"
proof
  assume adm: "admissible s GameManager_init es"
  define m where "m = run s GameManager_init es"
  have inv: "registry_inv (cleanup_room m room_id)"
    unfolding m_def using registry_inv_init adm
    by (intro registry_inv_cleanup_room registry_inv_run)
  have gone: "rooms (cleanup_room m room_id) room_id = None"
    by (simp add: cleanup_room_rooms)
  have "\<forall>sid. session_to_room (cleanup_room m room_id) sid \<noteq> Some room_id"
    using inv gone unfolding registry_inv_def by fastforce
  moreover have "cleanup_room (cleanup_room m room_id) room_id = cleanup_room m room_id"
    using gone by (rule cleanup_room_absent)
  ultimately show "let m = run s GameManager_init es; m' = cleanup_room m room_id
    in rooms m' room_id = None
       \<and> (\<forall>sid. session_to_room m' sid \<noteq> Some room_id)
       \<and> cleanup_room m' room_id = m'"
    using gone by (simp add: m_def Let_def)
qed


theorem cleanup_room_clears_witness:
  "admissible settings GameManager_init events_one_room
   \<and> rooms (run settings GameManager_init events_one_room) ''r1'' \<noteq> None
   \<and> session_to_room (run settings GameManager_init events_one_room) (Some ''sa'') = Some ''r1''
   \<and> (let m' = cleanup_room (run settings GameManager_init events_one_room) ''r1''
      in rooms m' ''r1'' = None
         \<and> (\<forall>sid. session_to_room m' sid \<noteq> Some ''r1'')
         \<and> cleanup_room m' ''r1'' = m')"
  using cleanup_room_clears [of settings events_one_room "''r1''"]
  by (simp add: events_one_room_def eval_defs Let_def)

text \<open>
  C10. \<open>cleanup_room room_id\<close> removes the entries of \<open>session_to_room\<close> keyed by the
  session handles of the two players of the removed room, whatever room id they map to
  (so also an entry that has been re-indexed to a newer room), removes \<open>room_id\<close>
  from \<open>rooms\<close>, and leaves every other entry of both indexes as it was. When the
  room is not in the registry nothing changes.
\<close>

theorem cleanup_room_deletes_by_session:
  "(rooms m room_id = Some room \<longrightarrow>
      (\<forall>sid. session_to_room (cleanup_room m room_id) sid =
         (if sid = session_id (player1 room) \<or> sid = session_id (player2 room) then None
          else session_to_room m sid))
      \<and> (\<forall>key. rooms (cleanup_room m room_id) key =
           (if key = room_id then None else rooms m key)))
   \<and> (rooms m room_id = None \<longrightarrow> cleanup_room m room_id = m)"
  by (simp add: cleanup_room_sessions_Some cleanup_room_rooms cleanup_room_absent)

theorem cleanup_room_deletes_by_session_witness:
  "(let m = run settings GameManager_init events_requeued; m' = cleanup_room m ''r1''
    in map_option player1 (rooms m ''r1'') = Some playerA
       \<and> map_option player2 (rooms m ''r1'') = Some playerB
       \<and> session_to_room m (Some ''sa'') = Some ''r2''
       \<and> session_to_room m' (Some ''sa'') = None
       \<and> session_to_room m' (Some ''sb'') = None
       \<and> session_to_room m' (Some ''sc'') = Some ''r2''
       \<and> rooms m' ''r1'' = None
       \<and> rooms m' ''r2'' = rooms m ''r2''
       \<and> rooms m' ''r2'' \<noteq> None
       \<and> rooms m ''r3'' = None
       \<and> cleanup_room m ''r3'' = m)"
  using cleanup_room_deletes_by_session [of "run settings GameManager_init events_requeued" "''r1''"
      "the (rooms (run settings GameManager_init events_requeued) ''r1'')"]
    cleanup_room_deletes_by_session [of "run settings GameManager_init events_requeued" "''r3''"
      "the (rooms (run settings GameManager_init events_requeued) ''r1'')"]
  by (simp add: events_requeued_def eval_defs Let_def)


section \<open>Rope position\<close>

lemma update_rope_position_bounded:
  "0 \<le> win_threshold s \<Longrightarrow> status r = ACTIVE \<Longrightarrow> in_bounds s (fst (update_rope_position s now r))"
  by (simp add: update_rope_position_def in_bounds_def Let_def)

lemma update_rope_position_inactive:
  "status r \<noteq> ACTIVE \<Longrightarrow> update_rope_position s now r = (r, False)"
  by (simp add: update_rope_position_def)

lemma update_rope_position_in_bounds:
  "0 \<le> win_threshold s \<Longrightarrow> in_bounds s r \<Longrightarrow> in_bounds s (fst (update_rope_position s now r))"
  by (cases "status r = ACTIVE")
     (simp_all add: update_rope_position_bounded update_rope_position_inactive)

lemma start_game_rope:
  "rooms (start_game now m rid) key = Some r' \<Longrightarrow>
   rope_position r' = 0 \<or> rooms m key = Some r'"
  by (auto simp: start_game_def get_room_def split: option.splits if_splits)

lemma register_pull_rope:
  "rooms (snd (register_pull now m rid pid u)) key = Some r' \<Longrightarrow>
   \<exists>r. rooms m key = Some r \<and> rope_position r' = rope_position r"
  by (auto simp: register_pull_def get_room_def Let_def split: option.splits if_splits)

lemma end_game_rope:
  "rooms (end_game s now m rid) key = Some r' \<Longrightarrow>
   \<exists>r. rooms m key = Some r \<and> rope_position r' = rope_position r"
  by (auto simp: end_game_def get_room_def Let_def split: option.splits if_splits)

lemma mark_abandoned_rope: "rope_position (mark_abandoned r sid) = rope_position r"
  by (simp add: mark_abandoned_def Let_def)

lemma handle_player_disconnect_rope:
  assumes "rooms (handle_player_disconnect s now m rid sid) key = Some r'"
  shows "\<exists>r. rooms m key = Some r \<and> rope_position r' = rope_position r"
proof (cases "rooms m rid")
  case None
  then show ?thesis using assms by (simp add: handle_player_disconnect_def get_room_def)
next
  case (Some r0)
  from assms have "rooms (end_game s now (m\<lparr>rooms := (rooms m)(rid \<mapsto> mark_abandoned r0 sid)\<rparr>) rid) key
      = Some r'"
    by (simp add: handle_player_disconnect_def get_room_def Some)
  from end_game_rope [OF this] obtain r1 where
    r1: "((rooms m)(rid \<mapsto> mark_abandoned r0 sid)) key = Some r1"
        "rope_position r' = rope_position r1" by auto
  show ?thesis
    using r1 Some by (cases "key = rid") (auto simp: mark_abandoned_rope)
qed

lemma cleanup_room_rope:
  "rooms (cleanup_room m rid) key = Some r' \<Longrightarrow> rooms m key = Some r'"
  by (simp add: cleanup_room_rooms split: if_splits)

lemma create_room_rope:
  "rooms (snd (create_room uuid m p1 p2)) key = Some r' \<Longrightarrow>
   rope_position r' = 0 \<or> rooms m key = Some r'"
  by (auto simp: create_room_rooms GameRoom_init_def split: if_splits)

lemma step_in_bounds:
  assumes thr: "0 \<le> win_threshold s"
    and inv: "\<And>r. rooms m key = Some r \<Longrightarrow> in_bounds s r"
    and r': "rooms (step s m e) key = Some r'"
  shows "in_bounds s r'"
proof (cases e)
  case (CreateRoom uuid p1 p2)
  then show ?thesis using create_room_rope [of uuid m p1 p2 key r'] r' inv thr
    by (auto simp: in_bounds_def)
next
  case (StartGame now rid)
  then show ?thesis using start_game_rope [of now m rid key r'] r' inv thr
    by (auto simp: in_bounds_def)
next
  case (RegisterPull now rid pid u)
  then show ?thesis using register_pull_rope [of now m rid pid u key r'] r' inv
    by (auto simp: in_bounds_def)
next
  case (UpdateRopePosition now k)
  then show ?thesis using r' inv thr
    by (auto simp: update_rope_position_in_bounds split: option.splits if_splits)
next
  case (EndGame now rid)
  then show ?thesis using end_game_rope [of s now m rid key r'] r' inv
    by (auto simp: in_bounds_def)
next
  case (CleanupRoom rid)
  then show ?thesis using cleanup_room_rope [of m rid key r'] r' inv by simp
next
  case (PlayerDisconnect now rid sid)
  then show ?thesis using handle_player_disconnect_rope [of s now m rid sid key r'] r' inv
    by (auto simp: in_bounds_def)
qed

lemma run_in_bounds:
  "0 \<le> win_threshold s \<Longrightarrow> (\<And>r. rooms m key = Some r \<Longrightarrow> in_bounds s r) \<Longrightarrow>
   rooms (run s m es) key = Some r' \<Longrightarrow> in_bounds s r'"
proof (induction es arbitrary: m)
  case Nil
  then show ?case by simp
next
  case (Cons e es)
  show ?case
  proof (rule Cons.IH [of "step s m e"])
    show "0 \<le> win_threshold s" by fact
    show "\<And>r. rooms (step s m e) key = Some r \<Longrightarrow> in_bounds s r"
      using step_in_bounds [OF Cons.prems(1)] Cons.prems(2) by blast
    show "rooms (run s (step s m e) es) key = Some r'" using Cons.prems(3) by simp
  qed
qed

text \<open>
  C4. With a non-negative win threshold (the default is 100), the rope position is within
  \<open>[-win_threshold, win_threshold]\<close> after every \<open>update_rope_position\<close> on an
  ACTIVE room, whatever the pull history; and once \<open>start_game\<close> has started a
  WAITING room, the room's rope position is within these bounds after every sequence of
  operations (pulls and ticks at any clock readings, and every other operation of the
  manager).
\<close>

theorem rope_position_bounded:
  "0 \<le> win_threshold s \<longrightarrow>
   (status room = ACTIVE \<longrightarrow>
      - win_threshold s \<le> rope_position (fst (update_rope_position s t room))
      \<and> rope_position (fst (update_rope_position s t room)) \<le> win_threshold s)
   \<and> (rooms m room_id = Some room \<and> status room = WAITING \<longrightarrow>
        (\<forall>es room'. rooms (run s (start_game now m room_id) es) room_id = Some room' \<longrightarrow>
           - win_threshold s \<le> rope_position room' \<and> rope_position room' \<le> win_threshold s))"
proof (intro impI conjI allI)
  assume thr: "0 \<le> win_threshold s" and "status room = ACTIVE"
  then have "in_bounds s (fst (update_rope_position s t room))"
    by (rule update_rope_position_bounded)
  then show "- win_threshold s \<le> rope_position (fst (update_rope_position s t room))"
    and "rope_position (fst (update_rope_position s t room)) \<le> win_threshold s"
    by (simp_all add: in_bounds_def)
next
  fix es room'
  assume thr: "0 \<le> win_threshold s"
    and w: "rooms m room_id = Some room \<and> status room = WAITING"
    and r': "rooms (run s (start_game now m room_id) es) room_id = Some room'"
  have start: "\<And>r. rooms (start_game now m room_id) room_id = Some r \<Longrightarrow> in_bounds s r"
    using w thr by (auto simp: start_game_def get_room_def in_bounds_def)
  have "in_bounds s room'" using run_in_bounds [OF thr start r'] by simp
  then show "- win_threshold s \<le> rope_position room'" and "rope_position room' \<le> win_threshold s"
    by (simp_all add: in_bounds_def)
qed

lemma log_10_2_clamp:
  "min 100 (log 10 2 / 20) = log 10 2 / (20::real)"
  "max (- 100) (log 10 2 / 20) = log 10 2 / (20::real)"
  "- 2000 \<le> log 10 (2::real)" "log 10 (2::real) \<le> 2000"
proof -
  have pos: "0 < log 10 (2::real)" by simp
  have lt: "log 10 (2::real) < 1" by simp
  have "log 10 2 / 20 \<le> (100::real)" using lt by linarith
  then show "min 100 (log 10 2 / 20) = log 10 2 / (20::real)" by (rule min_absorb2)
  have "- 100 \<le> log 10 2 / (20::real)" using pos by linarith
  then show "max (- 100) (log 10 2 / 20) = log 10 2 / (20::real)" by (rule max_absorb2)
  show "- 2000 \<le> log 10 (2::real)" using pos by linarith
  show "log 10 (2::real) \<le> 2000" using lt by linarith
qed

theorem rope_position_bounded_witness:
  "0 \<le> win_threshold settings
   \<and> map_option status (rooms (run settings GameManager_init [CreateRoom ''r1'' playerA playerB]) ''r1'')
       = Some WAITING
   \<and> map_option rope_position
        (rooms (run settings
           (start_game 0 (run settings GameManager_init [CreateRoom ''r1'' playerA playerB]) ''r1'')
           events_pull_tick) ''r1'') = Some (log 10 2 / 20)
   \<and> - 100 \<le> log 10 2 / (20::real) \<and> log 10 2 / (20::real) \<le> 100
   \<and> status room_at_threshold = ACTIVE
   \<and> rope_position (fst (update_rope_position settings 120000000 room_at_threshold)) = 100"
  using rope_position_bounded [of settings
      "the (rooms (run settings GameManager_init [CreateRoom ''r1'' playerA playerB]) ''r1'')"
      0 "run settings GameManager_init [CreateRoom ''r1'' playerA playerB]" "''r1''" 0]
    rope_position_bounded [of settings room_at_threshold 120000000 GameManager_init "''r1''" 0]
  by (simp add: log_10_2_clamp events_pull_tick_def eval_defs register_pull_def update_rope_position_def
        calculate_engagement_stats_def timedelta_seconds_def room_at_threshold_def Let_def card_set
        del: set_filter)

section \<open>Pull registration\<close>

lemma stats_inv_init: "stats_inv GameManager_init"
  by (simp add: stats_inv_def GameManager_init_def)

lemma stats_inv_update:
  assumes "stats_inv m" "status r' = ACTIVE \<Longrightarrow> has_total_pulls r'"
  shows "stats_inv (m\<lparr>rooms := (rooms m)(k \<mapsto> r')\<rparr>)"
  using assms unfolding stats_inv_def by auto

lemma stats_inv_active:
  "stats_inv m \<Longrightarrow> rooms m key = Some room \<Longrightarrow> status room = ACTIVE \<Longrightarrow> has_total_pulls room"
  unfolding stats_inv_def by blast

lemma stats_inv_create_room: "stats_inv m \<Longrightarrow> stats_inv (snd (create_room uuid m p1 p2))"
  unfolding stats_inv_def by (auto simp: create_room_rooms GameRoom_init_def)

lemma stats_inv_start_game: "stats_inv m \<Longrightarrow> stats_inv (start_game now m rid)"
  unfolding start_game_def get_room_def
  by (simp split: option.splits add: stats_inv_update has_total_pulls_def initial_stats_def)

lemma stats_inv_register_pull:
  assumes "stats_inv m" shows "stats_inv (snd (register_pull now m rid pid u))"
proof (cases "rooms m rid")
  case None
  then show ?thesis using assms by (simp add: register_pull_def get_room_def)
next
  case (Some room)
  show ?thesis
  proof (cases "status room = ACTIVE")
    case False
    then show ?thesis using assms Some by (simp add: register_pull_def get_room_def)
  next
    case True
    then have "has_total_pulls room" using assms Some by (rule stats_inv_active [rotated 2])
    then show ?thesis using assms Some True
      by (auto simp: register_pull_def get_room_def Let_def has_total_pulls_def
            intro!: stats_inv_update)
  qed
qed

lemma calculate_engagement_stats_total_pulls:
  "player1_stats (calculate_engagement_stats s now r) ''total_pulls'' = player1_stats r ''total_pulls''"
  "player2_stats (calculate_engagement_stats s now r) ''total_pulls'' = player2_stats r ''total_pulls''"
  by (simp_all add: calculate_engagement_stats_def Let_def)

lemma update_rope_position_total_pulls:
  "player1_stats (fst (update_rope_position s now r)) ''total_pulls'' = player1_stats r ''total_pulls''"
  "player2_stats (fst (update_rope_position s now r)) ''total_pulls'' = player2_stats r ''total_pulls''"
  by (simp_all add: update_rope_position_def calculate_engagement_stats_total_pulls Let_def)

lemma stats_inv_update_rope_position:
  "stats_inv m \<Longrightarrow> rooms m key = Some r \<Longrightarrow>
   stats_inv (m\<lparr>rooms := (rooms m)(key \<mapsto> fst (update_rope_position s now r))\<rparr>)"
  by (rule stats_inv_update)
     (auto simp: has_total_pulls_def update_rope_position_total_pulls update_rope_position_frame
        dest: stats_inv_active)

lemma stats_inv_end_game: "stats_inv m \<Longrightarrow> stats_inv (end_game s now m rid)"
  unfolding end_game_def get_room_def Let_def
  by (auto split: option.splits intro!: stats_inv_update)

lemma stats_inv_cleanup_room: "stats_inv m \<Longrightarrow> stats_inv (cleanup_room m rid)"
  unfolding stats_inv_def by (auto simp: cleanup_room_rooms split: if_splits)

lemma stats_inv_handle_player_disconnect:
  "stats_inv m \<Longrightarrow> stats_inv (handle_player_disconnect s now m rid sid)"
  unfolding handle_player_disconnect_def get_room_def
  by (auto split: option.splits simp: mark_abandoned_def Let_def
        intro!: stats_inv_end_game stats_inv_update dest: stats_inv_active)

lemma stats_inv_step: "stats_inv m \<Longrightarrow> stats_inv (step s m e)"
  by (cases e)
     (simp_all add: stats_inv_create_room stats_inv_start_game stats_inv_register_pull
        stats_inv_update_rope_position stats_inv_end_game stats_inv_cleanup_room
        stats_inv_handle_player_disconnect split: option.splits)

lemma stats_inv_run: "stats_inv m \<Longrightarrow> stats_inv (run s m es)"
  by (induction es arbitrary: m) (simp_all add: stats_inv_step)

lemma register_pull_other_player:
  assumes "rooms m room_id = Some room" "status room = ACTIVE"
    "pid \<noteq> id_player (player1 room)" "player2_stats room ''total_pulls'' = Some n"
  shows "register_pull now m room_id pid uname =
     (None, m\<lparr>rooms := (rooms m)(room_id \<mapsto>
        room\<lparr>pull_history := pull_history room @ [\<lparr>timestamp = now, username = uname, player_id = pid\<rparr>],
             player2_stats := (player2_stats room)(''total_pulls'' \<mapsto> n + 1)\<rparr>)\<rparr>)"
  using assms by (simp add: register_pull_def get_room_def Let_def)

text \<open>
  C9. In every state that the operations produce from the empty registry, a
  \<open>register_pull\<close> on an ACTIVE room with a \<open>player_id\<close> that is neither player's id
  raises nothing, appends the pull to the room's history and adds one to
  \<open>total_pulls\<close> of \<open>player2_stats\<close>; nothing else of the manager changes.
\<close>

theorem register_pull_unknown_player:
  "rooms (run s GameManager_init es) room_id = Some room \<and> status room = ACTIVE
   \<and> pid \<noteq> id_player (player1 room) \<and> pid \<noteq> id_player (player2 room) \<longrightarrow>
   (\<exists>n. player2_stats room ''total_pulls'' = Some n \<and>
      register_pull now (run s GameManager_init es) room_id pid uname =
        (None, (run s GameManager_init es)\<lparr>rooms := (rooms (run s GameManager_init es))(room_id \<mapsto>
           room\<lparr>pull_history :=
                  pull_history room @ [\<lparr>timestamp = now, username = uname, player_id = pid\<rparr>],
                player2_stats := (player2_stats room)(''total_pulls'' \<mapsto> n + 1)\<rparr>)\<rparr>))"
proof
  assume h: "rooms (run s GameManager_init es) room_id = Some room \<and> status room = ACTIVE
   \<and> pid \<noteq> id_player (player1 room) \<and> pid \<noteq> id_player (player2 room)"
  have "stats_inv (run s GameManager_init es)"
    using stats_inv_init by (rule stats_inv_run)
  then have "has_total_pulls room" using h by (auto dest: stats_inv_active)
  then obtain n where n: "player2_stats room ''total_pulls'' = Some n"
    by (auto simp: has_total_pulls_def)
  show "\<exists>n. player2_stats room ''total_pulls'' = Some n \<and>
      register_pull now (run s GameManager_init es) room_id pid uname =
        (None, (run s GameManager_init es)\<lparr>rooms := (rooms (run s GameManager_init es))(room_id \<mapsto>
           room\<lparr>pull_history :=
                  pull_history room @ [\<lparr>timestamp = now, username = uname, player_id = pid\<rparr>],
                player2_stats := (player2_stats room)(''total_pulls'' \<mapsto> n + 1)\<rparr>)\<rparr>)"
    using h n by (intro exI [of _ n] conjI register_pull_other_player) simp_all
qed

theorem register_pull_unknown_player_witness:
  "map_option status (rooms (run settings GameManager_init events_one_room) ''r1'') = Some ACTIVE
   \<and> ''nobody'' \<noteq> id_player playerA \<and> ''nobody'' \<noteq> id_player playerB
   \<and> fst (register_pull 7 (run settings GameManager_init events_one_room)
           ''r1'' ''nobody'' ''viewer9'') = None
   \<and> map_option pull_history
        (rooms (snd (register_pull 7 (run settings GameManager_init events_one_room)
           ''r1'' ''nobody'' ''viewer9'')) ''r1'')
       = Some [\<lparr>timestamp = 7, username = ''viewer9'', player_id = ''nobody''\<rparr>]
   \<and> map_option (\<lambda>r. player2_stats r ''total_pulls'')
        (rooms (snd (register_pull 7 (run settings GameManager_init events_one_room)
           ''r1'' ''nobody'' ''viewer9'')) ''r1'') = Some (Some 1)
   \<and> map_option (\<lambda>r. player1_stats r ''total_pulls'')
        (rooms (snd (register_pull 7 (run settings GameManager_init events_one_room)
           ''r1'' ''nobody'' ''viewer9'')) ''r1'') = Some (Some 0)"
  using register_pull_unknown_player [of settings events_one_room "''r1''"
      "the (rooms (run settings GameManager_init events_one_room) ''r1'')" "''nobody''" 7 "''viewer9''"]
  by (simp add: events_one_room_def eval_defs register_pull_def Let_def)

section \<open>Engagement statistics\<close>

lemma unique_pullers_spec_filter:
  "card (set (map username
      (filter (\<lambda>p. player_id p = pid)
         (filter (\<lambda>p. now - timestamp p < timedelta_seconds 30) history))))
   = unique_pullers_spec now pid history"
proof -
  have "set (map username
      (filter (\<lambda>p. player_id p = pid)
         (filter (\<lambda>p. now - timestamp p < timedelta_seconds 30) history)))
    = username ` {p \<in> set history. now - timestamp p < 30 * 1000000 \<and> player_id p = pid}"
    by (auto simp: timedelta_seconds_def)
  then show ?thesis by (simp only: unique_pullers_spec_def)
qed

lemma calculate_engagement_stats_player1:
  "player1_stats (calculate_engagement_stats s now room) ''unique_pullers'' =
     Some (real (unique_pullers_spec now (id_player (player1 room)) (pull_history room)))"
  "player1_stats (calculate_engagement_stats s now room) ''engagement_rate'' =
     Some (real (unique_pullers_spec now (id_player (player1 room)) (pull_history room))
           / real_of_int (max (viewer_count (player1 room)) 1))"
  "player1_stats (calculate_engagement_stats s now room) ''pull_power'' =
     Some (pull_power_spec (base_pull_strength s) (viewer_count (player1 room))
            (unique_pullers_spec now (id_player (player1 room)) (pull_history room)))"
  unfolding calculate_engagement_stats_def Let_def unique_pullers_spec_filter pull_power_spec_def
  by (simp_all add: add.commute)

lemma calculate_engagement_stats_player2:
  "player2_stats (calculate_engagement_stats s now room) ''unique_pullers'' =
     Some (real (unique_pullers_spec now (id_player (player2 room)) (pull_history room)))"
  "player2_stats (calculate_engagement_stats s now room) ''engagement_rate'' =
     Some (real (unique_pullers_spec now (id_player (player2 room)) (pull_history room))
           / real_of_int (max (viewer_count (player2 room)) 1))"
  "player2_stats (calculate_engagement_stats s now room) ''pull_power'' =
     Some (pull_power_spec (base_pull_strength s) (viewer_count (player2 room))
            (unique_pullers_spec now (id_player (player2 room)) (pull_history room)))"
  unfolding calculate_engagement_stats_def Let_def unique_pullers_spec_filter pull_power_spec_def
  by (simp_all add: add.commute)

lemma log_10_2_lower: "59 / 196 < log 10 (2::real)"
proof -
  have lt: "(10::real) ^ 59 < 2 ^ 196" by simp
  have less: "log 10 ((10::real) ^ 59) < log 10 (2 ^ 196)"
    by (rule iffD2 [OF log_less_cancel_iff]) (use lt in simp_all)
  have e1: "log 10 ((10::real) ^ 59) = 59"
    by (subst log_nat_power) simp_all
  have e2: "log 10 ((2::real) ^ 196) = 196 * log 10 2"
    by (subst log_nat_power) simp_all
  have "59 < 196 * log 10 (2::real)" using less unfolding e1 e2 .
  then show ?thesis by simp
qed

lemma log_10_2_upper: "log 10 (2::real) < 28 / 93"
proof -
  have lt: "(2::real) ^ 93 < 10 ^ 28" by simp
  have less: "log 10 ((2::real) ^ 93) < log 10 (10 ^ 28)"
    by (rule iffD2 [OF log_less_cancel_iff]) (use lt in simp_all)
  have e1: "log 10 ((10::real) ^ 28) = 28"
    by (subst log_nat_power) simp_all
  have e2: "log 10 ((2::real) ^ 93) = 93 * log 10 2"
    by (subst log_nat_power) simp_all
  have "93 * log 10 (2::real) < 28" using less unfolding e1 e2 .
  then show ?thesis by simp
qed

lemma log_10_4: "log 10 (4::real) = 2 * log 10 2"
proof -
  have "log 10 ((2::real) ^ 2) = 2 * log 10 2" by (simp add: log_nat_power del: power_numeral)
  then show ?thesis by simp
qed

lemma pull_power_three_of_ten:
  "pull_power_spec 1 10 3 = 3 / 10 * 1 * log 10 4"
  "\<bar>pull_power_spec 1 10 3 - 1806 / 10000\<bar> < 1 / 10000"
proof -
  show eq: "pull_power_spec 1 10 3 = 3 / 10 * 1 * log 10 4"
    by (simp add: pull_power_spec_def)
  show "\<bar>pull_power_spec 1 10 3 - 1806 / 10000\<bar> < 1 / 10000"
    unfolding eq log_10_4 using log_10_2_lower log_10_2_upper by linarith
qed

lemma pull_power_spec_zero: "pull_power_spec base viewers 0 = 0"
  by (simp add: pull_power_spec_def)

lemma pull_power_spec_strict_mono:
  assumes b: "0 < base" and u: "u < u'"
  shows "pull_power_spec base viewers u < pull_power_spec base viewers u'"
proof -
  let ?v = "real_of_int (max viewers 1)"
  have v: "0 < ?v" by simp
  have rate: "real u / ?v * base < real u' / ?v * base"
    using b u v by (simp add: divide_strict_right_mono)
  have rate_pos: "0 < real u' / ?v * base"
    using b u v by simp
  have log_nonneg: "0 \<le> log 10 (real u + 1)" by simp
  have log_less: "log 10 (real u + 1) < log 10 (real u' + 1)"
    using u by simp
  show ?thesis
    unfolding pull_power_spec_def
    using rate log_less rate_pos log_nonneg by (rule mult_strict_mono)
qed

lemma room_three_pullers_fields:
  "id_player (player1 room_three_pullers) = ''pa''"
  "id_player (player2 room_three_pullers) = ''pb''"
  "viewer_count (player1 room_three_pullers) = 10"
  "viewer_count (player2 room_three_pullers) = 20"
  "base_pull_strength settings = 1"
  by (simp_all add: room_three_pullers_def playerA_def playerB_def settings_def)

lemma room_three_pullers_swapped_fields:
  "id_player (player1 room_three_pullers_swapped) = ''pb''"
  "id_player (player2 room_three_pullers_swapped) = ''pa''"
  "viewer_count (player1 room_three_pullers_swapped) = 20"
  "viewer_count (player2 room_three_pullers_swapped) = 10"
  "pull_history room_three_pullers_swapped = pull_history room_three_pullers"
  by (simp_all add: room_three_pullers_swapped_def playerA_def playerB_def)

lemma room_three_pullers_counts:
  "unique_pullers_spec 60000000 ''pa'' (pull_history room_three_pullers) = 3"
  "unique_pullers_spec 72000000 ''pa'' (pull_history room_three_pullers) = 1"
  "unique_pullers_spec 100000000 ''pa'' (pull_history room_three_pullers) = 0"
  "unique_pullers_spec 60000000 ''pb'' (pull_history room_three_pullers) = 1"
  "unique_pullers_spec 100000000 ''pb'' (pull_history room_three_pullers) = 0"
  unfolding unique_pullers_spec_filter [symmetric] card_set
  by (simp_all add: room_three_pullers_def timedelta_seconds_def)

text \<open>
  C5. After \<open>calculate_engagement_stats\<close>, for each side \<open>unique_pullers\<close> is the
  number of distinct usernames among the events of the pull history less than 30
  seconds old (\<open>now - timestamp < 30 s\<close>) whose \<open>player_id\<close> is the side's id, and
  \<open>engagement_rate\<close> is that number divided by \<open>max(viewer_count, 1)\<close>. With
  viewer count 10, base pull strength 1 and 3 unique pullers the engagement rate is 0.3
  and the pull power is \<open>0.3 * 1 * log10(4)\<close>, within 0.0001 of 0.1806.
\<close>

theorem engagement_stats_per_side:
  "(let room' = calculate_engagement_stats s now room;
        u1 = unique_pullers_spec now (id_player (player1 room)) (pull_history room);
        u2 = unique_pullers_spec now (id_player (player2 room)) (pull_history room)
    in player1_stats room' ''unique_pullers'' = Some (real u1)
       \<and> player1_stats room' ''engagement_rate'' =
           Some (real u1 / real_of_int (max (viewer_count (player1 room)) 1))
       \<and> player2_stats room' ''unique_pullers'' = Some (real u2)
       \<and> player2_stats room' ''engagement_rate'' =
           Some (real u2 / real_of_int (max (viewer_count (player2 room)) 1))
       \<and> (viewer_count (player1 room) = 10 \<and> base_pull_strength s = 1 \<and> u1 = 3 \<longrightarrow>
            player1_stats room' ''engagement_rate'' = Some (3 / 10)
            \<and> player1_stats room' ''pull_power'' = Some (3 / 10 * 1 * log 10 4)
            \<and> \<bar>3 / 10 * 1 * log 10 4 - 1806 / 10000\<bar> < (1 / 10000 :: real))
       \<and> (viewer_count (player2 room) = 10 \<and> base_pull_strength s = 1 \<and> u2 = 3 \<longrightarrow>
            player2_stats room' ''engagement_rate'' = Some (3 / 10)
            \<and> player2_stats room' ''pull_power'' = Some (3 / 10 * 1 * log 10 4)
            \<and> \<bar>3 / 10 * 1 * log 10 4 - 1806 / 10000\<bar> < (1 / 10000 :: real)))"
proof -
  have bound: "\<bar>3 / 10 * 1 * log 10 4 - 1806 / 10000\<bar> < (1 / 10000 :: real)"
    using pull_power_three_of_ten(2) unfolding pull_power_three_of_ten(1) .
  have three: "pull_power_spec 1 10 3 = 3 / 10 * 1 * log 10 4"
    by (rule pull_power_three_of_ten)
  show ?thesis
    unfolding Let_def
    by (intro conjI impI; (elim conjE)?)
       (use bound in \<open>simp_all add: calculate_engagement_stats_player1
          calculate_engagement_stats_player2 three\<close>)
qed

theorem engagement_stats_per_side_witness:
  "viewer_count (player1 room_three_pullers) = 10 \<and> base_pull_strength settings = 1
   \<and> unique_pullers_spec 60000000 (id_player (player1 room_three_pullers))
        (pull_history room_three_pullers) = 3
   \<and> player1_stats (calculate_engagement_stats settings 60000000 room_three_pullers)
        ''unique_pullers'' = Some 3
   \<and> player1_stats (calculate_engagement_stats settings 60000000 room_three_pullers)
        ''engagement_rate'' = Some (3 / 10)
   \<and> player1_stats (calculate_engagement_stats settings 60000000 room_three_pullers)
        ''pull_power'' = Some (3 / 10 * 1 * log 10 4)
   \<and> player2_stats (calculate_engagement_stats settings 60000000 room_three_pullers)
        ''engagement_rate'' = Some (1 / 20)
   \<and> viewer_count (player2 room_three_pullers_swapped) = 10
   \<and> unique_pullers_spec 60000000 (id_player (player2 room_three_pullers_swapped))
        (pull_history room_three_pullers_swapped) = 3
   \<and> player2_stats (calculate_engagement_stats settings 60000000 room_three_pullers_swapped)
        ''engagement_rate'' = Some (3 / 10)
   \<and> player2_stats (calculate_engagement_stats settings 60000000 room_three_pullers_swapped)
        ''pull_power'' = Some (3 / 10 * 1 * log 10 4)"
  using engagement_stats_per_side [of settings 60000000 room_three_pullers]
    engagement_stats_per_side [of settings 60000000 room_three_pullers_swapped]
  by (simp add: Let_def room_three_pullers_fields room_three_pullers_swapped_fields
        room_three_pullers_counts)

section \<open>Pull power in float arithmetic\<close>


lemma round_half_even_of_int [simp]: "round_half_even (real_of_int n) = n"
  by (simp add: round_half_even_def)

lemma round_half_even_numeral [simp]: "round_half_even (numeral n) = numeral n"
  using round_half_even_of_int [of "numeral n"] by simp

lemma round_half_even_zero [simp]: "round_half_even 0 = 0"
  using round_half_even_of_int [of 0] by simp


lemma ulp_pos: "0 < ulp x"
  by (simp add: ulp_def)





lemma round_double_value_zero [simp]: "round_double_value 0 = 0"
  by (simp add: round_double_value_def)


lemma ulp_times_52: "ulp x * 2 powr 52 = 2 powr (real_of_int (binade x))"
proof -
  have e: "real_of_int (binade x) - 52 + 52 = real_of_int (binade x)" by simp
  show ?thesis unfolding ulp_def powr_add [symmetric] e by (rule refl)
qed





lemma round_double_value_power_of_two:
  assumes "- 1022 \<le> k" shows "round_double_value (2 powr (real_of_int k)) = 2 powr (real_of_int k)"
proof -
  let ?x = "2 powr (real_of_int k)"
  have "2 powr (- 1022) \<le> ?x" using assms by (intro powr_mono) simp_all
  then have b: "binade ?x = k" by (simp add: binade_def)
  have u: "ulp ?x * 2 powr 52 = ?x" using ulp_times_52 [of ?x] by (simp only: b)
  then have "?x / ulp ?x = 2 powr 52" using ulp_pos [of ?x] by (simp add: field_simps)
  then have q: "?x / ulp ?x = real_of_int (2 ^ 52)" by simp
  have "round_double_value ?x = real_of_int (round_half_even (real_of_int (2 ^ 52))) * ulp ?x"
    by (simp only: round_double_value_def q)
  also have "\<dots> = ulp ?x * 2 powr 52" by simp
  finally show ?thesis using u by simp
qed


lemma round_double_zero [simp]: "round_double 0 = Finite 0"
  by (simp add: round_double_def)




lemma round_double_value_one [simp]: "round_double_value 1 = 1"
  using round_double_value_power_of_two [of 0] by simp

lemma round_double_value_two [simp]: "round_double_value 2 = 2"
  using round_double_value_power_of_two [of 1] by simp

















section \<open>Status transitions, forfeit and time limit\<close>

lemma state_started_eval:
  "state_started =
     \<lparr>rooms = [''r1'' \<mapsto>
        \<lparr>id_room = ''r1'', player1 = playerA, player2 = playerB, status = ACTIVE,
         rope_position = 0, start_time = Some 0, end_time = None, winner_id = None,
         pull_history = [], player1_stats = initial_stats, player2_stats = initial_stats\<rparr>],
      session_to_room = [Some ''sa'' \<mapsto> ''r1'', Some ''sb'' \<mapsto> ''r1'']\<rparr>"
  by (simp add: state_started_def events_one_room_def GameManager_init_def create_room_def
        GameRoom_init_def start_game_def get_room_def playerA_def playerB_def Let_def)

lemma state_pulled_room:
  "map_option status (rooms state_pulled ''r1'') = Some ACTIVE"
  "map_option rope_position (rooms state_pulled ''r1'') = Some (log 10 2 / 20)"
  "map_option winner_id (rooms state_pulled ''r1'') = Some None"
  "map_option start_time (rooms state_pulled ''r1'') = Some (Some 0)"
  "map_option id_room (rooms state_pulled ''r1'') = Some ''r1''"
  by (simp_all add: state_pulled_def state_started_eval events_pull_tick_def register_pull_def
        get_room_def update_rope_position_def calculate_engagement_stats_def
        timedelta_seconds_def initial_stats_def playerA_def playerB_def settings_def Let_def
        card_set log_10_2_clamp del: set_filter)

lemma end_game_room:
  "rooms m rid = Some room \<Longrightarrow>
   rooms (end_game s now m rid) rid =
     Some (room\<lparr>status := FINISHED, end_time := Some now,
             winner_id := (if rope_position room \<le> - win_threshold s
                             then Some (id_player (player2 room))
                           else if win_threshold s \<le> rope_position room
                             then Some (id_player (player1 room))
                           else winner_id room)\<rparr>)"
  by (simp add: end_game_def get_room_def Let_def)

lemma end_game_other: "key \<noteq> rid \<Longrightarrow> rooms (end_game s now m rid) key = rooms m key"
  by (simp add: end_game_def get_room_def Let_def split: option.splits)

lemma game_loop_room_timeout:
  assumes "rooms m key = Some room" "id_room room = key" "start_time room = Some t0"
    "real_of_int (game_duration s) \<le> total_seconds (now_check - t0)"
  shows "fst (game_loop_room s now_stats now_check now_end m key) =
     end_game s now_end
       (m\<lparr>rooms := (rooms m)(key \<mapsto> fst (update_rope_position s now_stats room))\<rparr>) key"
  using assms
  by (simp add: game_loop_room_def update_rope_position_frame split_beta Let_def)

text \<open>
  C3, as amended. When the game loop ends an ACTIVE room because the time elapsed since
  its start is at least the game duration, the room becomes FINISHED and the winner is
  resolved against the win threshold, not by the sign of the rope position: player 2 if
  the rope position (as the tick has just updated it) is at most minus the threshold,
  otherwise player 1 if it is at least the threshold, and otherwise \<open>winner_id\<close> stays
  as it was, whatever the sign.
\<close>

theorem timeout_winner_by_threshold:
  "rooms m key = Some room \<and> status room = ACTIVE \<and> id_room room = key
   \<and> start_time room = Some t0
   \<and> real_of_int (game_duration s) \<le> total_seconds (now_check - t0) \<longrightarrow>
   (\<exists>room'. rooms (fst (game_loop_room s now_stats now_check now_end m key)) key = Some room'
      \<and> status room' = FINISHED
      \<and> rope_position room' = rope_position (fst (update_rope_position s now_stats room))
      \<and> winner_id room' =
          (if rope_position room' \<le> - win_threshold s then Some (id_player (player2 room))
           else if win_threshold s \<le> rope_position room' then Some (id_player (player1 room))
           else winner_id room))"
proof
  assume h: "rooms m key = Some room \<and> status room = ACTIVE \<and> id_room room = key
   \<and> start_time room = Some t0
   \<and> real_of_int (game_duration s) \<le> total_seconds (now_check - t0)"
  let ?r = "fst (update_rope_position s now_stats room)"
  let ?m = "m\<lparr>rooms := (rooms m)(key \<mapsto> ?r)\<rparr>"
  have "fst (game_loop_room s now_stats now_check now_end m key) = end_game s now_end ?m key"
    using h by (intro game_loop_room_timeout) blast+
  moreover have "rooms ?m key = Some ?r" by simp
  ultimately show "\<exists>room'. rooms (fst (game_loop_room s now_stats now_check now_end m key)) key = Some room'
      \<and> status room' = FINISHED
      \<and> rope_position room' = rope_position (fst (update_rope_position s now_stats room))
      \<and> winner_id room' =
          (if rope_position room' \<le> - win_threshold s then Some (id_player (player2 room))
           else if win_threshold s \<le> rope_position room' then Some (id_player (player1 room))
           else winner_id room)"
    by (simp add: end_game_room update_rope_position_frame)
qed

lemma room_at_threshold_fields:
  "rooms state_at_threshold ''r1'' = Some room_at_threshold"
  "status room_at_threshold = ACTIVE"
  "id_room room_at_threshold = ''r1''"
  "start_time room_at_threshold = Some 0"
  "winner_id room_at_threshold = None"
  "id_player (player1 room_at_threshold) = ''pa''"
  "id_player (player2 room_at_threshold) = ''pb''"
  "session_id (player1 room_at_threshold) = Some ''sa''"
  "session_id (player2 room_at_threshold) = Some ''sb''"
  "rope_position room_at_threshold = 100"
  "win_threshold settings = 100"
  "game_duration settings = 120"
  by (simp_all add: state_at_threshold_def room_at_threshold_def playerA_def playerB_def
        settings_def)

lemma room_at_threshold_tick:
  "rope_position (fst (update_rope_position settings 120000000 room_at_threshold)) = 100"
  by (simp add: room_at_threshold_def update_rope_position_def calculate_engagement_stats_def
        settings_def Let_def)

theorem timeout_winner_by_threshold_witness:
  "rooms state_at_threshold ''r1'' = Some room_at_threshold
   \<and> status room_at_threshold = ACTIVE \<and> id_room room_at_threshold = ''r1''
   \<and> start_time room_at_threshold = Some 0
   \<and> real_of_int (game_duration settings) \<le> total_seconds (120000000 - 0)
   \<and> (\<exists>room'. rooms (fst (game_loop_room settings 120000000 120000000 120000000
                  state_at_threshold ''r1'')) ''r1'' = Some room'
        \<and> status room' = FINISHED \<and> rope_position room' = 100
        \<and> winner_id room' = Some ''pa'')"
  using timeout_winner_by_threshold [of state_at_threshold "''r1''" room_at_threshold 0
      settings 120000000 120000000 120000000]
  by (auto simp add: room_at_threshold_fields room_at_threshold_tick total_seconds_def)

lemma log_10_2_inside:
  "\<not> 2000 \<le> log 10 (2::real)" "\<not> log 10 (2::real) \<le> - 2000"
proof -
  have pos: "0 < log 10 (2::real)" by simp
  have lt: "log 10 (2::real) < 1" by simp
  show "\<not> 2000 \<le> log 10 (2::real)" using lt by linarith
  show "\<not> log 10 (2::real) \<le> - 2000" using pos by linarith
qed

text \<open>
  C3 as stated (player 1 wins at the time limit whenever the rope position is positive)
  fails on the code: in \<open>state_pulled\<close> the rope is at \<open>log10(2) / 20\<close>, which is
  positive and below the threshold 100; the tick at second 120 ends the room on the time
  limit, the rope is still there, and no winner is set.
\<close>

theorem timeout_winner_by_sign_counterexample:
  "map_option status (rooms state_pulled ''r1'') = Some ACTIVE
   \<and> map_option start_time (rooms state_pulled ''r1'') = Some (Some 0)
   \<and> real_of_int (game_duration settings) \<le> total_seconds (120000000 - 0)
   \<and> map_option status (rooms (fst (game_loop_room settings 120000000 120000000 120000000
         state_pulled ''r1'')) ''r1'') = Some FINISHED
   \<and> map_option rope_position (rooms (fst (game_loop_room settings 120000000 120000000 120000000
         state_pulled ''r1'')) ''r1'') = Some (log 10 2 / 20)
   \<and> 0 < log 10 2 / (20::real)
   \<and> map_option winner_id (rooms (fst (game_loop_room settings 120000000 120000000 120000000
         state_pulled ''r1'')) ''r1'') = Some None"
  by (simp add: state_pulled_def state_started_eval events_pull_tick_def register_pull_def
        get_room_def update_rope_position_def calculate_engagement_stats_def
        game_loop_room_def end_game_def total_seconds_def
        timedelta_seconds_def initial_stats_def playerA_def playerB_def settings_def Let_def
        card_set log_10_2_clamp log_10_2_inside del: set_filter)

lemma handle_player_disconnect_room:
  "rooms m rid = Some room \<Longrightarrow>
   handle_player_disconnect s now m rid sid =
     end_game s now (m\<lparr>rooms := (rooms m)(rid \<mapsto> mark_abandoned room sid)\<rparr>) rid"
  by (simp add: handle_player_disconnect_def get_room_def)

lemma handle_player_disconnect_status:
  "rooms m rid = Some room \<Longrightarrow>
   map_option status (rooms (handle_player_disconnect s now m rid sid) rid) = Some FINISHED"
  by (simp add: handle_player_disconnect_room end_game_room)

lemma handle_player_disconnect_other:
  "key \<noteq> rid \<Longrightarrow> rooms (handle_player_disconnect s now m rid sid) key = rooms m key"
  by (simp add: handle_player_disconnect_def get_room_def end_game_other split: option.splits)

text \<open>
  What holds of the status: along every operation other than the replacement of a room
  by \<open>create_room\<close>, the rank of a room's status never decreases, and FINISHED stays
  FINISHED.
\<close>

lemma start_game_status:
  "rooms m key = Some r \<Longrightarrow> rooms (start_game now m rid) key = Some r' \<Longrightarrow>
   status_rank (status r) \<le> status_rank (status r') \<and> (status r = FINISHED \<longrightarrow> status r' = FINISHED)"
  by (auto simp: start_game_def get_room_def split: if_splits option.splits)

lemma register_pull_status:
  "rooms m key = Some r \<Longrightarrow> rooms (snd (register_pull now m rid pid u)) key = Some r' \<Longrightarrow>
   status r' = status r"
  by (auto simp: register_pull_def get_room_def Let_def split: if_splits option.splits)

lemma end_game_status:
  assumes "rooms m key = Some r" "rooms (end_game s now m rid) key = Some r'"
  shows "status_rank (status r) \<le> status_rank (status r') \<and> (status r = FINISHED \<longrightarrow> status r' = FINISHED)"
proof (cases "key = rid")
  case True
  then have "status r' = FINISHED" using assms by (auto simp: end_game_room)
  then show ?thesis by (cases "status r") simp_all
next
  case False
  then show ?thesis using assms by (simp add: end_game_other)
qed

lemma handle_player_disconnect_status_forward:
  assumes "rooms m key = Some r" "rooms (handle_player_disconnect s now m rid sid) key = Some r'"
  shows "status_rank (status r) \<le> status_rank (status r') \<and> (status r = FINISHED \<longrightarrow> status r' = FINISHED)"
proof (cases "key = rid")
  case True
  then have "status r' = FINISHED" using assms handle_player_disconnect_status [of m rid r s now sid]
    by auto
  then show ?thesis by (cases "status r") simp_all
next
  case False
  then show ?thesis using assms by (simp add: handle_player_disconnect_other)
qed

lemma status_forward:
  assumes "rooms m key = Some r" "rooms (step s m e) key = Some r'" "fresh_uuid m e"
  shows "status_rank (status r) \<le> status_rank (status r') \<and> (status r = FINISHED \<longrightarrow> status r' = FINISHED)"
proof (cases e)
  case (CreateRoom uuid p1 p2)
  then have "key \<noteq> uuid" using assms by auto
  then show ?thesis using assms CreateRoom by (simp add: create_room_rooms)
next
  case (StartGame now rid)
  then show ?thesis using assms start_game_status by simp
next
  case (RegisterPull now rid pid u)
  then show ?thesis using assms register_pull_status [of m key r now rid pid u r'] by simp
next
  case (UpdateRopePosition now k)
  then show ?thesis using assms
    by (cases "k = key") (auto simp: update_rope_position_frame split: option.splits)
next
  case (EndGame now rid)
  then show ?thesis using assms end_game_status by simp
next
  case (CleanupRoom rid)
  then show ?thesis using assms by (simp add: cleanup_room_rooms split: if_splits)
next
  case (PlayerDisconnect now rid sid)
  then show ?thesis using assms handle_player_disconnect_status_forward by simp
qed

text \<open>
  C1 (the status only moves forward along WAITING, ACTIVE, then FINISHED or ABANDONED,
  and once FINISHED or ABANDONED no operation changes it). The code breaks the last
  part for ABANDONED: \<open>end_game\<close> sets the status to FINISHED whatever it was. When
  the session \<open>sa\<close> of player A disconnects from the started room,
  \<open>handle_player_disconnect\<close> marks the room ABANDONED (\<open>state_abandoned\<close>) and
  then runs \<open>end_game\<close>, which changes the status from ABANDONED to FINISHED.
\<close>

theorem end_game_overwrites_abandoned:
  "map_option status (rooms state_started ''r1'') = Some ACTIVE
   \<and> map_option status (rooms state_abandoned ''r1'') = Some ABANDONED
   \<and> handle_player_disconnect settings 5000000 state_started ''r1'' ''sa''
       = end_game settings 5000000 state_abandoned ''r1''
   \<and> map_option status (rooms (end_game settings 5000000 state_abandoned ''r1'') ''r1'')
       = Some FINISHED"
  by (simp add: state_abandoned_def state_started_eval handle_player_disconnect_def
        get_room_def mark_abandoned_def end_game_room playerA_def Let_def)

text \<open>
  C2 (after a disconnect during ACTIVE the winner is the other player and the status is
  ABANDONED). On the code, after \<open>handle_player_disconnect\<close> for the session \<open>sa\<close>
  of player A on the started, ACTIVE room, the winner is player B but the status is
  FINISHED, not ABANDONED.
\<close>

theorem disconnect_status_finished:
  "map_option status (rooms state_started ''r1'') = Some ACTIVE
   \<and> map_option (session_id \<circ> player1) (rooms state_started ''r1'') = Some (Some ''sa'')
   \<and> map_option status
        (rooms (handle_player_disconnect settings 5000000 state_started ''r1'' ''sa'') ''r1'')
       = Some FINISHED
   \<and> map_option winner_id
        (rooms (handle_player_disconnect settings 5000000 state_started ''r1'' ''sa'') ''r1'')
       = Some (Some ''pb'')"
  by (simp add: state_started_eval handle_player_disconnect_def get_room_def
        mark_abandoned_def end_game_room playerA_def playerB_def settings_def Let_def)

text \<open>
  The same defect also overrides the forfeit winner when the rope is at the threshold:
  player A disconnects with the rope at +100 and \<open>end_game\<close> names player A the winner.
\<close>

lemma disconnect_at_threshold_winner:
  "map_option winner_id
     (rooms (handle_player_disconnect settings 5000000 state_at_threshold ''r1'' ''sa'') ''r1'')
   = Some (Some ''pa'')"
  by (simp add: state_at_threshold_def room_at_threshold_def handle_player_disconnect_def
        get_room_def mark_abandoned_def end_game_room playerA_def playerB_def settings_def Let_def)

end
